theory Spec2Isabelle
  imports Complex_Main
begin

section \<open>Values, exceptions and the log\<close>

text \<open>
  The program is one Python module, \<^verbatim>\<open>upload_duplicate_104_to_mysql.py\<close>: the function
  \<^verbatim>\<open>fetch_104_data\<close> and the script body under \<^verbatim>\<open>__main__\<close>.

  A Python \<^verbatim>\<open>str\<close> is modelled as a \<^typ>\<open>string\<close> holding its UTF-8 bytes. The two
  separators the program splits on are ASCII, and an ASCII byte never occurs inside a
  multi-byte UTF-8 sequence, so splitting bytes and splitting code points agree.

  A decoded JSON document is a \<open>json\<close> value. A Python \<^verbatim>\<open>dict\<close> is an association
  list read with \<^const>\<open>map_of\<close>; the empty dict is \<open>JObj []\<close>. Python's \<^verbatim>\<open>None\<close> is
  \<open>JNull\<close>. Of a float the program only ever tests whether it is zero.
\<close>

datatype json =
    JNull
  | JBool bool
  | JInt int
  | JFloat real
  | JStr string
  | JArr "json list"
  | JObj "(string \<times> json) list"

text \<open>
  The exception classes that can reach the program. \<open>HTTPError\<close>, \<open>JSONDecodeError\<close>,
  \<open>ConnectionError\<close> and \<open>Timeout\<close> are the classes of \<^verbatim>\<open>requests.exceptions\<close>; they are
  siblings below \<^verbatim>\<open>RequestException\<close>, none a subclass of another. \<open>IntegrityError\<close>,
  \<open>OperationalError\<close> and \<open>DataError\<close> are the database layer's. \<open>KeyboardInterrupt\<close>
  derives from \<^verbatim>\<open>BaseException\<close> only.
\<close>

datatype exn =
    IndexError
  | AttributeError
  | KeyError
  | HTTPError
  | JSONDecodeError
  | ConnectionError
  | Timeout
  | IntegrityError
  | OperationalError
  | DataError
  | KeyboardInterrupt

text \<open>\<^verbatim>\<open>except Exception\<close>: every class above but \<open>KeyboardInterrupt\<close>.\<close>

fun is_Exception :: "exn \<Rightarrow> bool" where
  "is_Exception KeyboardInterrupt = False"
| "is_Exception _ = True"

text \<open>The exceptions of the database layer (SQLAlchemy and the driver).\<close>

fun database_layer :: "exn \<Rightarrow> bool" where
  "database_layer IntegrityError = True"
| "database_layer OperationalError = True"
| "database_layer DataError = True"
| "database_layer _ = False"

text \<open>
  The log: one entry per \<^verbatim>\<open>logger\<close> call, in order. A message is its template together
  with the values the f-string interpolates.
\<close>

datatype message =
    CannotParseJobId string
  | RequestFailed exn
  | PostingMissingOrClosed string
  | CheckingTable
  | TableReady
  | Fetching string
  | FetchFailed
  | FetchSucceeded
  | Upserted json
  | WriteFailed exn

datatype log_entry = LogError message | LogWarning message | LogInfo message

section \<open>The identifier of a posting\<close>

text \<open>
  \<^verbatim>\<open>s.split(c)\<close> for a one-character separator: the pieces between the occurrences of
  \<open>c\<close>, the current piece accumulated in \<open>cur\<close>.
\<close>

fun split_acc :: "char \<Rightarrow> string \<Rightarrow> string \<Rightarrow> string list" where
  "split_acc c cur [] = [cur]"
| "split_acc c cur (x # xs) =
     (if x = c then cur # split_acc c [] xs else split_acc c (cur @ [x]) xs)"

definition split_str :: "string \<Rightarrow> char \<Rightarrow> string list" where
  "split_str s c = split_acc c [] s"

text \<open>\<^verbatim>\<open>xs[-1]\<close> and \<^verbatim>\<open>xs[0]\<close>: both raise \<open>IndexError\<close> on the empty list.\<close>

definition index_last :: "'a list \<Rightarrow> exn + 'a" where
  "index_last xs = (case xs of [] \<Rightarrow> Inl IndexError | _ # _ \<Rightarrow> Inr (last xs))"

definition index_first :: "'a list \<Rightarrow> exn + 'a" where
  "index_first xs = (case xs of [] \<Rightarrow> Inl IndexError | x # _ \<Rightarrow> Inr x)"

text \<open>\<^verbatim>\<open>url.split('/')[-1].split('?')[0]\<close>\<close>

definition derive_job_id :: "string \<Rightarrow> exn + string" where
  "derive_job_id url =
     (case index_last (split_str url CHR ''/'') of
        Inl e \<Rightarrow> Inl e
      | Inr seg \<Rightarrow> index_first (split_str seg CHR ''?''))"

section \<open>Reading the payload\<close>

text \<open>
  \<^verbatim>\<open>d.get(key, default)\<close>. Only a dict has the method: on any other value the
  attribute lookup raises \<open>AttributeError\<close>.
\<close>

definition py_get :: "json \<Rightarrow> string \<Rightarrow> json \<Rightarrow> exn + json" where
  "py_get d key dflt =
     (case d of
        JObj kvs \<Rightarrow> (case map_of kvs key of None \<Rightarrow> Inr dflt | Some v \<Rightarrow> Inr v)
      | _ \<Rightarrow> Inl AttributeError)"

text \<open>\<^verbatim>\<open>not v\<close>: the values Python counts as false.\<close>

fun falsy :: "json \<Rightarrow> bool" where
  "falsy JNull = True"
| "falsy (JBool b) = (\<not> b)"
| "falsy (JInt i) = (i = 0)"
| "falsy (JFloat x) = (x = 0)"
| "falsy (JStr s) = (s = [])"
| "falsy (JArr xs) = (xs = [])"
| "falsy (JObj kvs) = (kvs = [])"

text \<open>\<^verbatim>\<open>job_data.get(section, {}).get(key, default)\<close>\<close>

definition get_nested :: "json \<Rightarrow> string \<Rightarrow> string \<Rightarrow> json \<Rightarrow> exn + json" where
  "get_nested job_data section key dflt =
     (case py_get job_data section (JObj []) of
        Inl e \<Rightarrow> Inl e
      | Inr sec \<Rightarrow> py_get sec key dflt)"

text \<open>The placeholder of \<open>contact_phone\<close>: three CJK characters, nine bytes of UTF-8.\<close>

definition placeholder :: string where
  "placeholder =
     [CHR 0xE6, CHR 0x9C, CHR 0xAA, CHR 0xE6, CHR 0x8F, CHR 0x90, CHR 0xE4, CHR 0xBE, CHR 0x9B]"

text \<open>
  The entries of the \<^verbatim>\<open>extracted_info\<close> literal after \<open>job_id\<close>, in the order the
  source writes them: the record's key, the section, the key inside the section, and
  the default of the inner \<^verbatim>\<open>get\<close> (\<open>JNull\<close> where the source gives none).
\<close>

definition field_table :: "(string \<times> string \<times> string \<times> json) list" where
  "field_table =
     [(''update_date'', ''header'', ''appearDate'', JNull),
      (''title'', ''header'', ''jobName'', JNull),
      (''description'', ''jobDetail'', ''jobDescription'', JNull),
      (''salary'', ''jobDetail'', ''salary'', JNull),
      (''work_type'', ''jobDetail'', ''workType'', JNull),
      (''work_time'', ''jobDetail'', ''workPeriod'', JNull),
      (''location'', ''jobDetail'', ''addressRegion'', JNull),
      (''degree'', ''condition'', ''edu'', JNull),
      (''department'', ''jobDetail'', ''department'', JNull),
      (''working_experience'', ''condition'', ''workExp'', JNull),
      (''qualification_required'', ''condition'', ''other'', JNull),
      (''qualification_bonus'', ''welfare'', ''welfare'', JNull),
      (''company_id'', ''header'', ''custNo'', JNull),
      (''company_name'', ''header'', ''custName'', JNull),
      (''company_address'', ''company'', ''address'', JNull),
      (''contact_person'', ''contact'', ''hrName'', JNull),
      (''contact_phone'', ''contact'', ''email'', JStr placeholder)]"

text \<open>
  A dict literal evaluates its entries in order; the first one that raises ends the
  evaluation with that exception.
\<close>

fun extract_fields ::
  "json \<Rightarrow> (string \<times> string \<times> string \<times> json) list \<Rightarrow> exn + (string \<times> json) list" where
  "extract_fields job_data [] = Inr []"
| "extract_fields job_data ((name, section, key, dflt) # rest) =
     (case get_nested job_data section key dflt of
        Inl e \<Rightarrow> Inl e
      | Inr v \<Rightarrow>
          (case extract_fields job_data rest of
             Inl e \<Rightarrow> Inl e
           | Inr kvs \<Rightarrow> Inr ((name, v) # kvs)))"

definition extracted_info :: "string \<Rightarrow> json \<Rightarrow> exn + (string \<times> json) list" where
  "extracted_info job_id job_data =
     (case extract_fields job_data field_table of
        Inl e \<Rightarrow> Inl e
      | Inr kvs \<Rightarrow> Inr ((''job_id'', JStr job_id) # kvs))"

section \<open>The transport\<close>

text \<open>
  What \<^verbatim>\<open>requests.get\<close> hands back: a response with a status code and a body, the body
  already decoded where it is JSON (\<open>None\<close> where it is not). The network is a
  parameter: a function from the requested URL to an exception raised by
  \<^verbatim>\<open>requests.get\<close> itself or to the response.
\<close>

record response =
  status_code :: nat
  body :: "json option"

text \<open>\<^verbatim>\<open>response.raise_for_status()\<close> raises for the 4xx and 5xx codes.\<close>

definition raise_for_status :: "response \<Rightarrow> exn + unit" where
  "raise_for_status r =
     (if 400 \<le> status_code r \<and> status_code r < 600 then Inl HTTPError else Inr ())"

text \<open>\<^verbatim>\<open>response.json()\<close>\<close>

definition response_json :: "response \<Rightarrow> exn + json" where
  "response_json r = (case body r of None \<Rightarrow> Inl JSONDecodeError | Some j \<Rightarrow> Inr j)"

text \<open>The three statements inside the second \<^verbatim>\<open>try\<close>.\<close>

definition request_data :: "(string \<Rightarrow> exn + response) \<Rightarrow> string \<Rightarrow> exn + json" where
  "request_data net url_api =
     (case net url_api of
        Inl e \<Rightarrow> Inl e
      | Inr r \<Rightarrow>
          (case raise_for_status r of
             Inl e \<Rightarrow> Inl e
           | Inr _ \<Rightarrow> response_json r))"

text \<open>\<^verbatim>\<open>except (HTTPError, JSONDecodeError)\<close>\<close>

fun caught_by_fetch :: "exn \<Rightarrow> bool" where
  "caught_by_fetch HTTPError = True"
| "caught_by_fetch JSONDecodeError = True"
| "caught_by_fetch _ = False"

section \<open>fetch_104_data\<close>

text \<open>
  The result of a call: the log entries it wrote, and either the exception that left
  the function (\<open>Inl\<close>) or the returned dict (\<open>Inr\<close>); \<open>Inr []\<close> is the empty dict.
\<close>

type_synonym fetch_result = "log_entry list \<times> (exn + (string \<times> json) list)"

text \<open>The part of the function after a payload has been decoded (source lines 48 to 74).\<close>

definition read_payload :: "string \<Rightarrow> json \<Rightarrow> fetch_result" where
  "read_payload job_id data =
     (case py_get data ''data'' (JObj []) of
        Inl e \<Rightarrow> ([], Inl e)
      | Inr job_data \<Rightarrow>
          if falsy job_data then ([LogWarning (PostingMissingOrClosed job_id)], Inr [])
          else
            (case py_get job_data ''custSwitch'' (JObj []) of
               Inl e \<Rightarrow> ([], Inl e)
             | Inr sw \<Rightarrow>
                 if sw = JStr ''off''
                 then ([LogWarning (PostingMissingOrClosed job_id)], Inr [])
                 else ([], extracted_info job_id job_data)))"

definition api_prefix :: string where
  "api_prefix = ''https://www.104.com.tw/job/ajax/content/''"

definition fetch_104_data :: "(string \<Rightarrow> exn + response) \<Rightarrow> string \<Rightarrow> fetch_result" where
  "fetch_104_data net url =
     (case derive_job_id url of
        Inl e \<Rightarrow>
          (if e = IndexError then ([LogError (CannotParseJobId url)], Inr [])
           else ([], Inl e))
      | Inr job_id \<Rightarrow>
          (case request_data net (api_prefix @ job_id) of
             Inl e \<Rightarrow>
               (if caught_by_fetch e then ([LogError (RequestFailed e)], Inr [])
                else ([], Inl e))
           | Inr data \<Rightarrow> read_payload job_id data))"

section \<open>The table and the upsert statement\<close>

text \<open>
  The columns of \<^verbatim>\<open>jobs_104\<close> in the order the \<^verbatim>\<open>Table\<close> declares them, each with its
  \<^verbatim>\<open>primary_key\<close> flag. The declared lengths are left to the server.
\<close>

definition columns :: "(string \<times> bool) list" where
  "columns =
     [(''job_id'', True),
      (''update_date'', False),
      (''title'', False),
      (''description'', False),
      (''salary'', False),
      (''work_type'', False),
      (''work_time'', False),
      (''location'', False),
      (''degree'', False),
      (''department'', False),
      (''working_experience'', False),
      (''qualification_required'', False),
      (''qualification_bonus'', False),
      (''company_id'', False),
      (''company_name'', False),
      (''company_address'', False),
      (''contact_person'', False),
      (''contact_phone'', False)]"

text \<open>
  A stored row gives every column a value (\<open>JNull\<close> is SQL's NULL); the table is the
  list of its rows.
\<close>

type_synonym row = "(string \<times> json) list"
type_synonym table = "row list"

text \<open>
  The statement the script builds: the values of the \<^verbatim>\<open>INSERT\<close>, and the assignments
  of \<^verbatim>\<open>ON DUPLICATE KEY UPDATE\<close>, each a column and the column of the inserted row
  whose value it takes (\<^verbatim>\<open>insert_stmt.inserted[col.name]\<close>).
\<close>

record statement =
  ins_values :: "(string \<times> json) list"
  on_duplicate :: "(string \<times> string) list"

text \<open>Source lines 128 to 141.\<close>

definition build_upsert :: "(string \<times> json) list \<Rightarrow> statement" where
  "build_upsert job_details =
     \<lparr>ins_values = job_details,
      on_duplicate = map (\<lambda>(name, pk). (name, name)) (filter (\<lambda>(name, pk). \<not> pk) columns)\<rparr>"

text \<open>
  What MySQL does with the statement when nothing fails. The row to insert takes a
  column's value from the statement, NULL where the statement has none. When a stored
  row has the same primary key, that row's assigned columns are rewritten and nothing is
  inserted; otherwise the new row is added.
\<close>

definition inserted :: "statement \<Rightarrow> string \<Rightarrow> json" where
  "inserted s c = (case map_of (ins_values s) c of None \<Rightarrow> JNull | Some v \<Rightarrow> v)"

definition new_row :: "statement \<Rightarrow> row" where
  "new_row s = map (\<lambda>(c, pk). (c, inserted s c)) columns"

definition primary_key :: "row \<Rightarrow> json option" where
  "primary_key r = map_of r ''job_id''"

definition update_row :: "statement \<Rightarrow> row \<Rightarrow> row" where
  "update_row s r =
     map (\<lambda>(c, v). (c, case map_of (on_duplicate s) c of None \<Rightarrow> v | Some src \<Rightarrow> inserted s src)) r"

definition mysql_execute :: "statement \<Rightarrow> table \<Rightarrow> table" where
  "mysql_execute s tbl =
     (if \<exists>r \<in> set tbl. primary_key r = primary_key (new_row s)
      then map (\<lambda>r. if primary_key r = primary_key (new_row s) then update_row s r else r) tbl
      else tbl @ [new_row s])"

text \<open>
  A table that conforms to the schema: every row has the declared columns, and no two
  rows share a primary key.
\<close>

definition conforms :: "table \<Rightarrow> bool" where
  "conforms tbl =
     ((\<forall>r \<in> set tbl. map fst r = map fst columns) \<and> distinct (map primary_key tbl))"

text \<open>
  A server is any function from the statement and the table to the exception raised
  while executing, if one is, and the table as the work left it.
  \<open>mysql_server\<close> is the server on which nothing fails.
\<close>

type_synonym server = "statement \<Rightarrow> table \<Rightarrow> exn option \<times> table"

definition mysql_server :: server where
  "mysql_server s tbl = (None, mysql_execute s tbl)"

text \<open>
  \<^verbatim>\<open>with engine.begin() as conn: conn.execute(stmt)\<close>: the block commits when it ends
  normally; when an exception leaves it, the transaction is rolled back and the
  exception goes on to the caller.
\<close>

definition engine_begin :: "server \<Rightarrow> statement \<Rightarrow> table \<Rightarrow> (exn + unit) \<times> table" where
  "engine_begin srv s tbl =
     (case srv s tbl of
        (None, tbl') \<Rightarrow> (Inr (), tbl')
      | (Some e, tbl') \<Rightarrow> (Inl e, tbl))"

text \<open>\<^verbatim>\<open>job_details['job_id']\<close>\<close>

definition subscript :: "(string \<times> json) list \<Rightarrow> string \<Rightarrow> exn + json" where
  "subscript d key = (case map_of d key of None \<Rightarrow> Inl KeyError | Some v \<Rightarrow> Inr v)"

text \<open>
  Source lines 126 to 150, the \<^verbatim>\<open>else\<close> branch of the script: the log, the exception
  that ends the process if one does, and the table afterwards.
\<close>

type_synonym run_result = "log_entry list \<times> (exn + unit) \<times> table"

definition handle_write :: "exn \<Rightarrow> table \<Rightarrow> run_result" where
  "handle_write e tbl =
     (if is_Exception e then ([LogError (WriteFailed e)], Inr (), tbl) else ([], Inl e, tbl))"

definition persist :: "server \<Rightarrow> (string \<times> json) list \<Rightarrow> table \<Rightarrow> run_result" where
  "persist srv job_details tbl =
     (case engine_begin srv (build_upsert job_details) tbl of
        (Inl e, tbl') \<Rightarrow> handle_write e tbl'
      | (Inr _, tbl') \<Rightarrow>
          (case subscript job_details ''job_id'' of
             Inl e \<Rightarrow> handle_write e tbl'
           | Inr v \<Rightarrow> ([LogInfo (Upserted v)], Inr (), tbl')))"

section \<open>The script\<close>

definition job_url :: string where
  "job_url = ''https://www.104.com.tw/job/8863t''"

text \<open>
  The body under \<^verbatim>\<open>__main__\<close>. \<open>create_all\<close> is the exception \<^verbatim>\<open>metadata.create_all\<close>
  raises, if it does; it is outside every \<^verbatim>\<open>try\<close>, and so is the call of
  \<^verbatim>\<open>fetch_104_data\<close>.
\<close>

definition main :: "exn option \<Rightarrow> (string \<Rightarrow> exn + response) \<Rightarrow> server \<Rightarrow> table \<Rightarrow> run_result" where
  "main create_all net srv tbl =
     (case create_all of
        Some e \<Rightarrow> ([LogInfo CheckingTable], Inl e, tbl)
      | None \<Rightarrow>
          (let pre = [LogInfo CheckingTable, LogInfo TableReady, LogInfo (Fetching job_url)]
           in case fetch_104_data net job_url of
                (lg, Inl e) \<Rightarrow> (pre @ lg, Inl e, tbl)
              | (lg, Inr job_details) \<Rightarrow>
                  if job_details = [] then (pre @ lg @ [LogError FetchFailed], Inr (), tbl)
                  else
                    (case persist srv job_details tbl of
                       (lg', out, tbl') \<Rightarrow>
                         (pre @ lg @ [LogInfo FetchSucceeded] @ lg', out, tbl'))))"

section \<open>Facts about the identifier\<close>

lemma split_acc_nonempty: "split_acc c cur s \<noteq> []"
  by (induction s arbitrary: cur) auto

lemma split_acc_no_sep: "c \<notin> set s \<Longrightarrow> split_acc c cur s = [cur @ s]"
  by (induction s arbitrary: cur) auto

lemma split_acc_last: "last (split_acc c cur (p @ c # s)) = last (split_acc c [] s)"
  by (induction p arbitrary: cur) (auto simp: split_acc_nonempty)

lemma split_acc_hd: "hd (split_acc c cur s) = cur @ takeWhile (\<lambda>x. x \<noteq> c) s"
  by (induction s arbitrary: cur) auto

lemma index_last_split: "index_last (split_str s c) = Inr (last (split_str s c))"
  by (cases "split_acc c [] s") (auto simp: index_last_def split_str_def split_acc_nonempty)

lemma index_first_split: "index_first (split_str s c) = Inr (takeWhile (\<lambda>x. x \<noteq> c) s)"
  using split_acc_hd [of c "[]" s]
  by (cases "split_acc c [] s") (auto simp: index_first_def split_str_def split_acc_nonempty)

lemma derive_job_id_eq:
  "derive_job_id url = Inr (takeWhile (\<lambda>x. x \<noteq> CHR ''?'') (last (split_str url CHR ''/'')))"
  by (simp add: derive_job_id_def index_last_split index_first_split)

lemma last_segment: "CHR ''/'' \<notin> set s \<Longrightarrow> last (split_str (p @ CHR ''/'' # s) CHR ''/'') = s"
  by (simp add: split_str_def split_acc_last split_acc_no_sep)

lemma read_payload_log:
  "x \<in> set (fst (read_payload job_id data)) \<Longrightarrow> x = LogWarning (PostingMissingOrClosed job_id)"
  by (auto simp: read_payload_def split: sum.splits if_splits)

lemma fetch_after_id:
  "derive_job_id url = Inr job_id \<Longrightarrow>
   fetch_104_data net url =
     (case request_data net (api_prefix @ job_id) of
        Inl e \<Rightarrow> (if caught_by_fetch e then ([LogError (RequestFailed e)], Inr []) else ([], Inl e))
      | Inr data \<Rightarrow> read_payload job_id data)"
  by (simp add: fetch_104_data_def)

section \<open>The claims about the identifier and the transport\<close>

text \<open>
  Claim C9. For every string \<open>url\<close> the derivation \<^verbatim>\<open>url.split('/')[-1].split('?')[0]\<close>
  returns: both splits give a non-empty list, so neither index raises \<open>IndexError\<close>;
  the handler of the first \<^verbatim>\<open>try\<close> is never entered (its log line is never written),
  and the function goes on to the request with the identifier derived. A URL that ends
  in \<^verbatim>\<open>/\<close> yields the empty identifier.
\<close>

theorem derive_job_id_never_raises:
  "(\<exists>job_id. derive_job_id url = Inr job_id \<and>
      fetch_104_data net url =
        (case request_data net (api_prefix @ job_id) of
           Inl e \<Rightarrow>
             (if caught_by_fetch e then ([LogError (RequestFailed e)], Inr []) else ([], Inl e))
         | Inr data \<Rightarrow> read_payload job_id data)) \<and>
   split_str url CHR ''/'' \<noteq> [] \<and>
   split_str seg CHR ''?'' \<noteq> [] \<and>
   derive_job_id url \<noteq> Inl IndexError \<and>
   LogError (CannotParseJobId u) \<notin> set (fst (fetch_104_data net url)) \<and>
   derive_job_id (p @ ''/'') = Inr []"
proof -
  obtain job_id where id: "derive_job_id url = Inr job_id"
    by (simp add: derive_job_id_eq)
  have no_handler: "LogError (CannotParseJobId u) \<notin> set (fst (fetch_104_data net url))"
    by (auto simp: fetch_after_id [OF id] split: sum.splits dest: read_payload_log)
  have slash: "derive_job_id (p @ ''/'') = Inr []"
    using last_segment [of "[]" p] by (simp add: derive_job_id_eq)
  show ?thesis
    using id no_handler slash fetch_after_id [OF id, of net]
    by (simp add: split_str_def split_acc_nonempty)
qed

theorem derive_job_id_never_raises_witness:
  "derive_job_id ''https://www.104.com.tw/job/'' = Inr [] \<and>
   split_str ''https://www.104.com.tw/job/'' CHR ''/'' \<noteq> []"
  using derive_job_id_never_raises [of "''https://www.104.com.tw/job/''" _ _ _ "''https://www.104.com.tw/job''"]
  by simp

text \<open>
  The two failures the handler of the second \<^verbatim>\<open>try\<close> names: a 4xx or 5xx status and a
  body that is not JSON are logged and answered with the empty dict.
\<close>

lemma request_errors_caught:
  assumes "derive_job_id url = Inr job_id"
    and "net (api_prefix @ job_id) = Inr r"
    and "(400 \<le> status_code r \<and> status_code r < 600) \<or> body r = None"
  shows "\<exists>e. caught_by_fetch e \<and> fetch_104_data net url = ([LogError (RequestFailed e)], Inr [])"
  using assms
  by (auto simp: fetch_104_data_def request_data_def raise_for_status_def response_json_def)

text \<open>
  Claim C2, at a failing input. \<^verbatim>\<open>requests.get\<close> raises \<open>ConnectionError\<close> (the host is
  unreachable). The handler names \<open>HTTPError\<close> and \<open>JSONDecodeError\<close> only, so the
  exception leaves \<open>fetch_104_data\<close>: nothing is logged and no dict is returned.
\<close>

theorem network_error_propagates:
  "fetch_104_data (\<lambda>u. Inl ConnectionError) ''https://www.104.com.tw/job/8863t'' =
     ([], Inl ConnectionError)"
  by (simp add: fetch_104_data_def derive_job_id_def split_str_def index_last_def
      index_first_def request_data_def)

text \<open>
  Claim C3, at a failing input. The URL ends in \<^verbatim>\<open>/\<close>, the identifier derived is the
  empty string, and the server answers with an open posting: the function returns a
  populated record whose \<open>job_id\<close> is empty, and logs nothing.
\<close>

theorem empty_identifier_record:
  "fetch_104_data
     (\<lambda>u. Inr \<lparr>status_code = 200,
               body = Some (JObj [(''data'', JObj [(''header'', JObj [(''jobName'', JStr ''Engineer'')])])])\<rparr>)
     ''https://www.104.com.tw/job/'' =
   ([], Inr [(''job_id'', JStr []),
             (''update_date'', JNull),
             (''title'', JStr ''Engineer''),
             (''description'', JNull),
             (''salary'', JNull),
             (''work_type'', JNull),
             (''work_time'', JNull),
             (''location'', JNull),
             (''degree'', JNull),
             (''department'', JNull),
             (''working_experience'', JNull),
             (''qualification_required'', JNull),
             (''qualification_bonus'', JNull),
             (''company_id'', JNull),
             (''company_name'', JNull),
             (''company_address'', JNull),
             (''contact_person'', JNull),
             (''contact_phone'', JStr placeholder)])"
  by (simp add: fetch_104_data_def derive_job_id_def split_str_def index_last_def
      index_first_def request_data_def raise_for_status_def response_json_def
      read_payload_def py_get_def extracted_info_def field_table_def get_nested_def)

text \<open>
  Where the identifier is the one the URL names: a URL that ends in \<^verbatim>\<open>/job/8863t\<close>, or
  in \<^verbatim>\<open>/job/8863t?\<close> followed by a query string without \<^verbatim>\<open>/\<close>. In general the result
  is the text after the last \<^verbatim>\<open>/\<close> of the whole URL, cut before its first \<^verbatim>\<open>?\<close>.
\<close>

lemma job_id_after_last_slash:
  "derive_job_id (p @ ''/job/8863t'') = Inr ''8863t'' \<and>
   (CHR ''/'' \<notin> set q \<longrightarrow> derive_job_id (p @ ''/job/8863t?'' @ q) = Inr ''8863t'') \<and>
   (CHR ''/'' \<notin> set s \<longrightarrow>
      derive_job_id (p @ CHR ''/'' # s) = Inr (takeWhile (\<lambda>x. x \<noteq> CHR ''?'') s))"
proof -
  have plain: "derive_job_id (p @ ''/job/8863t'') = Inr ''8863t''"
    using last_segment [of "''8863t''" "p @ ''/job''"] by (simp add: derive_job_id_eq)
  have query: "derive_job_id (p @ ''/job/8863t?'' @ q) = Inr ''8863t''" if "CHR ''/'' \<notin> set q"
    using that last_segment [of "''8863t?'' @ q" "p @ ''/job''"] by (simp add: derive_job_id_eq)
  have general: "derive_job_id (p @ CHR ''/'' # s) = Inr (takeWhile (\<lambda>x. x \<noteq> CHR ''?'') s)"
    if "CHR ''/'' \<notin> set s"
    using that by (simp add: derive_job_id_eq last_segment)
  show ?thesis using plain query general by blast
qed

text \<open>
  Claim C5, at a failing input. The URL has the path segment \<^verbatim>\<open>8863t\<close> under \<^verbatim>\<open>/job/\<close>
  and a query string that contains \<^verbatim>\<open>/\<close>. The split on \<^verbatim>\<open>/\<close> runs over the whole
  URL before the query is cut off, so the identifier derived is \<^verbatim>\<open>search\<close>, a piece of
  the query, and not \<^verbatim>\<open>8863t\<close>.
\<close>

theorem identifier_taken_from_query:
  "derive_job_id ''https://www.104.com.tw/job/8863t?from=/search'' = Inr ''search'' \<and>
   derive_job_id ''https://www.104.com.tw/job/8863t?from=/search'' \<noteq> Inr ''8863t''"
  by (simp add: derive_job_id_def split_str_def index_last_def index_first_def)

section \<open>Facts about the payload\<close>

lemma fetch_decoded:
  "derive_job_id url = Inr job_id \<Longrightarrow> request_data net (api_prefix @ job_id) = Inr data \<Longrightarrow>
   fetch_104_data net url = read_payload job_id data"
  by (simp add: fetch_104_data_def)

lemma get_nested_obj:
  "get_nested (JObj fs) sec key dflt =
     (case map_of fs sec of
        None \<Rightarrow> Inr dflt
      | Some (JObj cs) \<Rightarrow> (case map_of cs key of None \<Rightarrow> Inr dflt | Some v \<Rightarrow> Inr v)
      | Some _ \<Rightarrow> Inl AttributeError)"
  by (simp add: get_nested_def py_get_def split: option.splits json.splits)

lemma extract_fields_keys: "extract_fields jd tbl = Inr kvs \<Longrightarrow> map fst kvs = map fst tbl"
  by (induction jd tbl arbitrary: kvs rule: extract_fields.induct)
     (auto split: sum.splits)

lemma extract_fields_lookup:
  "extract_fields jd tbl = Inr kvs \<Longrightarrow> distinct (map fst tbl) \<Longrightarrow>
   (name, sec, key, dflt) \<in> set tbl \<Longrightarrow>
   get_nested jd sec key dflt = Inr (the (map_of kvs name)) \<and> map_of kvs name \<noteq> None"
proof (induction jd tbl arbitrary: kvs rule: extract_fields.induct)
  case (1 job_data)
  then show ?case by simp
next
  case (2 job_data name' section' key' dflt' rest)
  then show ?case
    by (auto split: sum.splits simp: rev_image_eqI)
qed

lemma extract_fields_total:
  "\<forall>(name, sec, key, dflt) \<in> set tbl. \<exists>v. get_nested jd sec key dflt = Inr v \<Longrightarrow>
   \<exists>kvs. extract_fields jd tbl = Inr kvs"
  by (induction jd tbl rule: extract_fields.induct) auto

section \<open>The claims about the payload\<close>

text \<open>
  Claim C6. When the decoded payload has no \<open>data\<close> entry, or its \<open>data\<close> entry is a
  value Python counts as false (the empty dict among them), or is a dict whose
  \<open>custSwitch\<close> is the string \<^verbatim>\<open>off\<close>, \<open>fetch_104_data\<close> logs one warning and returns
  the empty dict: no record, partial or whole.
\<close>

theorem closed_or_empty_posting_absent:
  assumes "derive_job_id url = Inr job_id"
    and "request_data net (api_prefix @ job_id) = Inr (JObj kvs)"
    and "map_of kvs ''data'' = None \<or>
         (\<exists>jd. map_of kvs ''data'' = Some jd \<and>
            (falsy jd \<or> (\<exists>fs. jd = JObj fs \<and> map_of fs ''custSwitch'' = Some (JStr ''off''))))"
  shows "fetch_104_data net url = ([LogWarning (PostingMissingOrClosed job_id)], Inr [])"
proof -
  have "read_payload job_id (JObj kvs) = ([LogWarning (PostingMissingOrClosed job_id)], Inr [])"
    using assms(3) by (auto simp: read_payload_def py_get_def)
  then show ?thesis
    using fetch_decoded [OF assms(1,2)] by simp
qed

theorem closed_or_empty_posting_absent_witness:
  "fetch_104_data
     (\<lambda>u. Inr \<lparr>status_code = 200,
               body = Some (JObj [(''data'', JObj [(''custSwitch'', JStr ''off''),
                                                   (''header'', JObj [(''jobName'', JStr ''Engineer'')])])])\<rparr>)
     ''https://www.104.com.tw/job/8863t'' =
   ([LogWarning (PostingMissingOrClosed ''8863t'')], Inr [])"
  by (rule closed_or_empty_posting_absent
       [where kvs = "[(''data'', JObj [(''custSwitch'', JStr ''off''),
                                      (''header'', JObj [(''jobName'', JStr ''Engineer'')])])]"])
     (simp_all add: derive_job_id_def split_str_def index_last_def index_first_def
        request_data_def raise_for_status_def response_json_def)

lemma field_table_distinct: "distinct (map fst field_table)"
  by (simp add: field_table_def)

lemma field_table_sections:
  "(name, sec, key, dflt) \<in> set field_table \<Longrightarrow>
   sec \<in> set [''header'', ''jobDetail'', ''condition'', ''welfare'', ''company'', ''contact'']"
  by (auto simp: field_table_def)

lemma field_table_defaults:
  "(name, sec, key, dflt) \<in> set field_table \<Longrightarrow>
   dflt = (if name = ''contact_phone'' then JStr placeholder else JNull)"
  by (auto simp: field_table_def)

lemma extracted_info_field:
  assumes "extracted_info job_id (JObj fs) = Inr r"
    and "(name, sec, key, dflt) \<in> set field_table"
  shows "(map_of fs sec = None \<longrightarrow> map_of r name = Some dflt) \<and>
         (\<forall>cs. map_of fs sec = Some (JObj cs) \<longrightarrow>
            map_of r name = Some (case map_of cs key of None \<Rightarrow> dflt | Some v \<Rightarrow> v)) \<and>
         (map_of fs sec = None \<or> (\<exists>cs. map_of fs sec = Some (JObj cs)))"
proof -
  obtain kvs where kvs: "extract_fields (JObj fs) field_table = Inr kvs"
    and r: "r = (''job_id'', JStr job_id) # kvs"
    using assms(1) by (auto simp: extracted_info_def split: sum.splits)
  have "name \<noteq> ''job_id''"
    using assms(2) by (auto simp: field_table_def)
  then have look: "map_of r name = map_of kvs name"
    by (simp add: r)
  from extract_fields_lookup [OF kvs field_table_distinct assms(2)]
  have "get_nested (JObj fs) sec key dflt = Inr (the (map_of kvs name))" and "map_of kvs name \<noteq> None"
    by simp_all
  then show ?thesis
    unfolding look get_nested_obj
    by (auto split: option.splits json.splits)
qed

lemma read_payload_open:
  "map_of kvs ''data'' = Some (JObj fs) \<Longrightarrow> fs \<noteq> [] \<Longrightarrow>
   map_of fs ''custSwitch'' \<noteq> Some (JStr ''off'') \<Longrightarrow>
   read_payload job_id (JObj kvs) = ([], extracted_info job_id (JObj fs))"
  by (auto simp: read_payload_def py_get_def split: option.splits)

lemma extracted_info_keys:
  "extracted_info job_id jd = Inr r \<Longrightarrow> map fst r = map fst columns"
  by (auto simp: extracted_info_def columns_def field_table_def
      split: sum.splits dest!: extract_fields_keys)

text \<open>
  Claim C4. In every record the extraction returns, \<open>contact_phone\<close> is the placeholder
  string, not null, when its source is absent (the payload has no \<open>contact\<close> section, or
  the section has no \<open>email\<close> key). It is the only entry with a non-null default: every
  other entry of the table has the default null, and is null when its section or its key
  is absent.
\<close>

theorem contact_phone_placeholder:
  assumes "extracted_info job_id (JObj fs) = Inr r"
  shows "((map_of fs ''contact'' = None \<or>
           (\<exists>cs. map_of fs ''contact'' = Some (JObj cs) \<and> map_of cs ''email'' = None)) \<longrightarrow>
          map_of r ''contact_phone'' = Some (JStr placeholder)) \<and>
         JStr placeholder \<noteq> JNull \<and>
         (\<forall>(name, sec, key, dflt) \<in> set field_table.
            name \<noteq> ''contact_phone'' \<longrightarrow>
            dflt = JNull \<and>
            ((map_of fs sec = None \<or>
              (\<exists>cs. map_of fs sec = Some (JObj cs) \<and> map_of cs key = None)) \<longrightarrow>
             map_of r name = Some JNull))"
proof -
  have phone: "(''contact_phone'', ''contact'', ''email'', JStr placeholder) \<in> set field_table"
    by (simp add: field_table_def)
  have first: "map_of r ''contact_phone'' = Some (JStr placeholder)"
    if "map_of fs ''contact'' = None \<or>
        (\<exists>cs. map_of fs ''contact'' = Some (JObj cs) \<and> map_of cs ''email'' = None)"
    using that extracted_info_field [OF assms phone] by auto
  have others: "dflt = JNull \<and>
      ((map_of fs sec = None \<or>
        (\<exists>cs. map_of fs sec = Some (JObj cs) \<and> map_of cs key = None)) \<longrightarrow>
       map_of r name = Some JNull)"
    if mem: "(name, sec, key, dflt) \<in> set field_table" and "name \<noteq> ''contact_phone''"
    for name sec key dflt
  proof -
    have "dflt = JNull"
      using that by (auto simp: field_table_def)
    then show ?thesis
      using extracted_info_field [OF assms mem] by auto
  qed
  show ?thesis
    using first others by auto
qed

theorem contact_phone_placeholder_witness:
  "\<exists>r. extracted_info ''8863t'' (JObj [(''header'', JObj [(''jobName'', JStr ''Engineer'')])]) = Inr r \<and>
       map_of r ''contact_phone'' = Some (JStr placeholder) \<and>
       map_of r ''contact_person'' = Some JNull \<and>
       map_of r ''salary'' = Some JNull"
proof -
  obtain r where r: "extracted_info ''8863t'' (JObj [(''header'', JObj [(''jobName'', JStr ''Engineer'')])]) = Inr r"
    by (simp add: extracted_info_def field_table_def get_nested_def py_get_def)
  have person: "(''contact_person'', ''contact'', ''hrName'', JNull) \<in> set field_table"
    and salary: "(''salary'', ''jobDetail'', ''salary'', JNull) \<in> set field_table"
    by (simp_all add: field_table_def)
  from contact_phone_placeholder [OF r]
  have phone: "map_of r ''contact_phone'' = Some (JStr placeholder)"
    and rest: "\<forall>(name, sec, key, dflt) \<in> set field_table.
            name \<noteq> ''contact_phone'' \<longrightarrow>
            dflt = JNull \<and>
            ((map_of [(''header'', JObj [(''jobName'', JStr ''Engineer'')])] sec = None \<or>
              (\<exists>cs. map_of [(''header'', JObj [(''jobName'', JStr ''Engineer'')])] sec = Some (JObj cs) \<and>
                    map_of cs key = None)) \<longrightarrow>
             map_of r name = Some JNull)"
    by simp_all
  have "map_of r ''contact_person'' = Some JNull" and "map_of r ''salary'' = Some JNull"
    using bspec [OF rest person] bspec [OF rest salary] by simp_all
  then show ?thesis
    using r phone by blast
qed

text \<open>
  Claim C10. \<open>contact_phone\<close> is read from the key \<open>email\<close> of the \<open>contact\<close> section.
  The placeholder is the result when the section is missing or the key is missing from
  it; when the key is present its value is the result, so an explicit null gives null.
  Conversely a placeholder in the record comes from a missing section, a missing key, or
  an \<open>email\<close> that is itself the placeholder string.
\<close>

theorem contact_phone_source:
  assumes "extracted_info job_id (JObj fs) = Inr r"
  shows "(map_of fs ''contact'' = None \<longrightarrow> map_of r ''contact_phone'' = Some (JStr placeholder)) \<and>
         (\<forall>cs. map_of fs ''contact'' = Some (JObj cs) \<longrightarrow>
            map_of r ''contact_phone'' =
              Some (case map_of cs ''email'' of None \<Rightarrow> JStr placeholder | Some v \<Rightarrow> v)) \<and>
         (\<forall>cs. map_of fs ''contact'' = Some (JObj cs) \<and> map_of cs ''email'' = Some JNull \<longrightarrow>
            map_of r ''contact_phone'' = Some JNull) \<and>
         (map_of r ''contact_phone'' = Some (JStr placeholder) \<longrightarrow>
            map_of fs ''contact'' = None \<or>
            (\<exists>cs. map_of fs ''contact'' = Some (JObj cs) \<and>
               (map_of cs ''email'' = None \<or> map_of cs ''email'' = Some (JStr placeholder))))"
proof -
  have phone: "(''contact_phone'', ''contact'', ''email'', JStr placeholder) \<in> set field_table"
    by (simp add: field_table_def)
  show ?thesis
    using extracted_info_field [OF assms phone]
    by (auto split: option.splits)
qed

theorem contact_phone_source_witness:
  "\<exists>r. extracted_info ''8863t'' (JObj [(''contact'', JObj [(''email'', JNull)])]) = Inr r \<and>
       map_of r ''contact_phone'' = Some JNull"
proof -
  obtain r where r: "extracted_info ''8863t'' (JObj [(''contact'', JObj [(''email'', JNull)])]) = Inr r"
    by (simp add: extracted_info_def field_table_def get_nested_def py_get_def)
  show ?thesis
    using r contact_phone_source [OF r] by auto
qed

text \<open>
  What the chained \<^verbatim>\<open>get\<close> does guard against. For a payload whose \<open>data\<close> section is
  a non-empty dict that is not switched off, and in which each of the six sections is
  either missing or a dict, \<open>fetch_104_data\<close> returns a record with the eighteen keys and
  logs nothing; a missing section gives the default in every field read from it.
\<close>

lemma missing_sections_give_defaults:
  assumes "derive_job_id url = Inr job_id"
    and "request_data net (api_prefix @ job_id) = Inr (JObj kvs)"
    and "map_of kvs ''data'' = Some (JObj fs)"
    and "fs \<noteq> []"
    and "map_of fs ''custSwitch'' \<noteq> Some (JStr ''off'')"
    and "\<forall>sec \<in> set [''header'', ''jobDetail'', ''condition'', ''welfare'', ''company'', ''contact''].
           map_of fs sec = None \<or> (\<exists>cs. map_of fs sec = Some (JObj cs))"
  shows "\<exists>r. fetch_104_data net url = ([], Inr r) \<and>
             map fst r = map fst columns \<and>
             (\<forall>(name, sec, key, dflt) \<in> set field_table.
                map_of fs sec = None \<longrightarrow>
                map_of r name = Some (if name = ''contact_phone'' then JStr placeholder else JNull))"
proof -
  have "\<exists>v. get_nested (JObj fs) sec key dflt = Inr v"
    if mem: "(name, sec, key, dflt) \<in> set field_table" for name sec key dflt
  proof -
    have "map_of fs sec = None \<or> (\<exists>cs. map_of fs sec = Some (JObj cs))"
      using field_table_sections [OF mem] assms(6) by blast
    then show ?thesis
      unfolding get_nested_obj by (auto split: option.splits)
  qed
  then have "\<forall>(name, sec, key, dflt) \<in> set field_table. \<exists>v. get_nested (JObj fs) sec key dflt = Inr v"
    by blast
  then obtain kvs' where "extract_fields (JObj fs) field_table = Inr kvs'"
    using extract_fields_total by blast
  then obtain r where r: "extracted_info job_id (JObj fs) = Inr r"
    by (simp add: extracted_info_def)
  have fetch: "fetch_104_data net url = ([], Inr r)"
    using fetch_decoded [OF assms(1,2)] read_payload_open [OF assms(3,4,5), of job_id] r by simp
  have "map_of r name = Some (if name = ''contact_phone'' then JStr placeholder else JNull)"
    if mem: "(name, sec, key, dflt) \<in> set field_table" and none: "map_of fs sec = None"
    for name sec key dflt
    using extracted_info_field [OF r mem] none field_table_defaults [OF mem] by simp
  then show ?thesis
    using fetch extracted_info_keys [OF r] by auto
qed

text \<open>
  Claim C7, at a failing input. The payload has a non-empty, open \<open>data\<close> section with
  no \<open>welfare\<close> object: the key is there and its value is null. The default of the outer
  \<^verbatim>\<open>get\<close> is used only when the key is missing, so the inner \<^verbatim>\<open>get\<close> is called on
  \<^verbatim>\<open>None\<close> and raises: \<open>AttributeError\<close> leaves \<open>fetch_104_data\<close>, and no record with a
  null \<open>qualification_bonus\<close> is returned.
\<close>

theorem null_section_raises:
  "fetch_104_data
     (\<lambda>u. Inr \<lparr>status_code = 200,
               body = Some (JObj [(''data'', JObj [(''welfare'', JNull)])])\<rparr>)
     ''https://www.104.com.tw/job/8863t'' =
   ([], Inl AttributeError)"
  by (simp add: fetch_104_data_def derive_job_id_def split_str_def index_last_def
      index_first_def request_data_def raise_for_status_def response_json_def
      read_payload_def py_get_def extracted_info_def field_table_def get_nested_def)

section \<open>Facts about the upsert\<close>

lemma on_duplicate_build:
  "map_of (on_duplicate (build_upsert d)) c =
     (if c \<in> set (map fst columns) \<and> c \<noteq> ''job_id'' then Some c else None)"
  by (simp add: build_upsert_def columns_def)

lemma new_row_keys: "map fst (new_row s) = map fst columns"
  by (simp add: new_row_def split_def)

lemma primary_key_new_row: "primary_key (new_row s) = Some (inserted s ''job_id'')"
  by (simp add: primary_key_def new_row_def columns_def)

lemma map_of_new_row:
  "c \<in> set (map fst columns) \<Longrightarrow> map_of (new_row s) c = Some (inserted s c)"
  by (auto simp: new_row_def columns_def)

lemma rewrite_columns:
  "map fst r = map fst cols \<Longrightarrow> (\<And>c v. (c, v) \<in> set r \<Longrightarrow> f c v = h c) \<Longrightarrow>
   map (\<lambda>(c, v). (c, f c v)) r = map (\<lambda>(c, pk). (c, h c)) cols"
proof (induction r arbitrary: cols)
  case Nil
  then show ?case by simp
next
  case (Cons a r)
  then show ?case by (cases cols) (auto simp: split_def)
qed

lemma columns_distinct: "distinct (map fst columns)"
  by (simp add: columns_def)

lemma update_row_conflict:
  assumes keys: "map fst r = map fst columns"
    and pk: "primary_key r = primary_key (new_row (build_upsert d))"
  shows "update_row (build_upsert d) r = new_row (build_upsert d)"
  unfolding update_row_def new_row_def
proof (rule rewrite_columns [OF keys])
  fix c v
  assume mem: "(c, v) \<in> set r"
  then have col: "c \<in> set (map fst columns)"
    using keys by (metis fst_conv image_eqI set_map)
  have dist: "distinct (map fst r)"
    using keys columns_distinct by simp
  show "(case map_of (on_duplicate (build_upsert d)) c of
           None \<Rightarrow> v | Some src \<Rightarrow> inserted (build_upsert d) src) = inserted (build_upsert d) c"
  proof (cases "c = ''job_id''")
    case True
    have "map_of r ''job_id'' = Some v"
      using mem True dist by simp
    then have "v = inserted (build_upsert d) ''job_id''"
      using pk by (simp add: primary_key_def [of r] primary_key_new_row)
    then show ?thesis
      using True by (simp add: on_duplicate_build)
  next
    case False
    then show ?thesis
      using col by (simp add: on_duplicate_build)
  qed
qed

lemma filter_replaced:
  "distinct (map f xs) \<Longrightarrow> \<exists>x \<in> set xs. f x = k \<Longrightarrow> f n = k \<Longrightarrow>
   filter (\<lambda>y. f y = k) (map (\<lambda>x. if f x = k then n else x) xs) = [n]"
proof (induction xs)
  case Nil
  then show ?case by simp
next
  case (Cons a xs)
  show ?case
  proof (cases "f a = k")
    case True
    then have "\<forall>x \<in> set xs. f x \<noteq> k"
      using Cons.prems(1) by (auto simp: image_iff)
    then have "filter (\<lambda>y. f y = k) (map (\<lambda>x. if f x = k then n else x) xs) = []"
      by (induction xs) auto
    then show ?thesis
      using True Cons.prems(3) by simp
  next
    case False
    then show ?thesis
      using Cons by auto
  qed
qed

lemma mysql_execute_upsert:
  assumes ok: "conforms tbl"
    and k: "inserted (build_upsert d) ''job_id'' = k"
  shows "conforms (mysql_execute (build_upsert d) tbl) \<and>
         filter (\<lambda>r. primary_key r = Some k) (mysql_execute (build_upsert d) tbl) =
           [new_row (build_upsert d)]"
proof -
  let ?s = "build_upsert d"
  let ?n = "new_row ?s"
  have pkn: "primary_key ?n = Some k"
    using k by (simp add: primary_key_new_row)
  have rows: "\<forall>r \<in> set tbl. map fst r = map fst columns"
    and dist: "distinct (map primary_key tbl)"
    using ok by (simp_all add: conforms_def)
  show ?thesis
  proof (cases "\<exists>r \<in> set tbl. primary_key r = Some k")
    case True
    have exec: "mysql_execute ?s tbl = map (\<lambda>r. if primary_key r = Some k then ?n else r) tbl"
      using True rows by (auto simp: mysql_execute_def pkn update_row_conflict)
    have keys: "map primary_key (mysql_execute ?s tbl) = map primary_key tbl"
      unfolding exec using pkn by (induction tbl) auto
    have "conforms (mysql_execute ?s tbl)"
      unfolding conforms_def keys using dist rows by (auto simp: exec new_row_keys)
    moreover have "filter (\<lambda>r. primary_key r = Some k) (mysql_execute ?s tbl) = [?n]"
      unfolding exec by (rule filter_replaced [OF dist True pkn])
    ultimately show ?thesis by simp
  next
    case False
    have exec: "mysql_execute ?s tbl = tbl @ [?n]"
      using False by (simp add: mysql_execute_def pkn)
    have "filter (\<lambda>r. primary_key r = Some k) tbl = []"
      using False by (induction tbl) auto
    then have "filter (\<lambda>r. primary_key r = Some k) (mysql_execute ?s tbl) = [?n]"
      by (simp add: exec pkn)
    moreover have "conforms (mysql_execute ?s tbl)"
      using False dist rows by (auto simp: conforms_def exec pkn new_row_keys)
    ultimately show ?thesis by simp
  qed
qed

lemma inserted_build: "inserted (build_upsert d) c = (case map_of d c of None \<Rightarrow> JNull | Some v \<Rightarrow> v)"
  by (simp add: inserted_def build_upsert_def)

section \<open>The claims about the table\<close>

text \<open>
  Claim C1. On a table that conforms to the schema, upserting a record and then a second
  record with the same identifier leaves exactly one row with that identifier, and the
  table still conforms. That row is the second record's: every column holds the second
  record's value, NULL where the second record has null or no value, whatever the first
  record or the table held before. The statement assigns every column but \<open>job_id\<close>
  its own inserted value. The script's write of the second record on the
  server that does not fail commits this table and logs the success.
\<close>

theorem upsert_last_write_wins:
  assumes "conforms tbl"
    and "map_of d1 ''job_id'' = Some k"
    and "map_of d2 ''job_id'' = Some k"
  shows "filter (\<lambda>r. primary_key r = Some k)
           (mysql_execute (build_upsert d2) (mysql_execute (build_upsert d1) tbl)) =
           [new_row (build_upsert d2)] \<and>
         conforms (mysql_execute (build_upsert d2) (mysql_execute (build_upsert d1) tbl)) \<and>
         (\<forall>c \<in> set (map fst columns).
            map_of (new_row (build_upsert d2)) c =
              Some (case map_of d2 c of None \<Rightarrow> JNull | Some v \<Rightarrow> v)) \<and>
         on_duplicate (build_upsert d2) =
           map (\<lambda>c. (c, c)) (filter (\<lambda>c. c \<noteq> ''job_id'') (map fst columns)) \<and>
         persist mysql_server d2 (mysql_execute (build_upsert d1) tbl) =
           ([LogInfo (Upserted k)], Inr (),
            mysql_execute (build_upsert d2) (mysql_execute (build_upsert d1) tbl))"
proof -
  have assigned: "on_duplicate (build_upsert d2) =
      map (\<lambda>c. (c, c)) (filter (\<lambda>c. c \<noteq> ''job_id'') (map fst columns))"
    by (simp add: build_upsert_def columns_def)
  have k1: "inserted (build_upsert d1) ''job_id'' = k" and k2: "inserted (build_upsert d2) ''job_id'' = k"
    using assms(2,3) by (simp_all add: inserted_build)
  have first: "conforms (mysql_execute (build_upsert d1) tbl)"
    using mysql_execute_upsert [OF assms(1) k1] by simp
  have second: "conforms (mysql_execute (build_upsert d2) (mysql_execute (build_upsert d1) tbl)) \<and>
      filter (\<lambda>r. primary_key r = Some k)
        (mysql_execute (build_upsert d2) (mysql_execute (build_upsert d1) tbl)) =
        [new_row (build_upsert d2)]"
    by (rule mysql_execute_upsert [OF first k2])
  have row: "\<forall>c \<in> set (map fst columns).
      map_of (new_row (build_upsert d2)) c = Some (case map_of d2 c of None \<Rightarrow> JNull | Some v \<Rightarrow> v)"
    using map_of_new_row [of _ "build_upsert d2"] by (simp add: inserted_build)
  have run: "persist mysql_server d2 (mysql_execute (build_upsert d1) tbl) =
           ([LogInfo (Upserted k)], Inr (),
            mysql_execute (build_upsert d2) (mysql_execute (build_upsert d1) tbl))"
    using assms(3) by (simp add: persist_def engine_begin_def mysql_server_def subscript_def)
  show ?thesis
    using second row assigned run by blast
qed

theorem upsert_last_write_wins_witness:
  "filter (\<lambda>r. primary_key r = Some (JStr ''8863t''))
     (mysql_execute
        (build_upsert [(''job_id'', JStr ''8863t''), (''title'', JStr ''Analyst''), (''salary'', JNull)])
        (mysql_execute
           (build_upsert [(''job_id'', JStr ''8863t''), (''title'', JStr ''Engineer''), (''salary'', JStr ''40000'')])
           [])) =
   [new_row (build_upsert [(''job_id'', JStr ''8863t''), (''title'', JStr ''Analyst''), (''salary'', JNull)])] \<and>
   map_of (new_row (build_upsert [(''job_id'', JStr ''8863t''), (''title'', JStr ''Analyst''), (''salary'', JNull)]))
     ''title'' = Some (JStr ''Analyst'') \<and>
   map_of (new_row (build_upsert [(''job_id'', JStr ''8863t''), (''title'', JStr ''Analyst''), (''salary'', JNull)]))
     ''salary'' = Some JNull"
proof -
  let ?d1 = "[(''job_id'', JStr ''8863t''), (''title'', JStr ''Engineer''), (''salary'', JStr ''40000'')]"
  let ?d2 = "[(''job_id'', JStr ''8863t''), (''title'', JStr ''Analyst''), (''salary'', JNull)]"
  have ok: "conforms []"
    by (simp add: conforms_def)
  have id1: "map_of ?d1 ''job_id'' = Some (JStr ''8863t'')" and id2: "map_of ?d2 ''job_id'' = Some (JStr ''8863t'')"
    by simp_all
  have title: "''title'' \<in> set (map fst columns)" and salary: "''salary'' \<in> set (map fst columns)"
    by (simp_all add: columns_def)
  note both = upsert_last_write_wins [OF ok id1 id2]
  have one: "filter (\<lambda>r. primary_key r = Some (JStr ''8863t''))
      (mysql_execute (build_upsert ?d2) (mysql_execute (build_upsert ?d1) [])) = [new_row (build_upsert ?d2)]"
    using both by blast
  have every: "\<forall>c \<in> set (map fst columns).
      map_of (new_row (build_upsert ?d2)) c = Some (case map_of ?d2 c of None \<Rightarrow> JNull | Some v \<Rightarrow> v)"
    using both by blast
  show ?thesis
    using one bspec [OF every title] bspec [OF every salary] by simp
qed

text \<open>
  Claim C8. When the server raises a database-layer exception while the statement
  executes, the write is rolled back and the exception is caught: the script logs one
  error, ends normally, and the table is as it was before. When the server raises
  nothing, the work is committed and the success is logged. The table differs from the
  one before only if the server raised nothing. The whole script, run on a posting that
  was fetched, ends normally with the table unchanged when the write fails.
\<close>

theorem database_error_rolled_back:
  "(srv (build_upsert job_details) tbl = (Some e, tbl') \<and> database_layer e \<longrightarrow>
      persist srv job_details tbl = ([LogError (WriteFailed e)], Inr (), tbl)) \<and>
   (srv (build_upsert job_details) tbl = (None, tbl') \<and> map_of job_details ''job_id'' = Some v \<longrightarrow>
      persist srv job_details tbl = ([LogInfo (Upserted v)], Inr (), tbl')) \<and>
   (snd (snd (persist srv job_details tbl)) \<noteq> tbl \<longrightarrow>
      fst (srv (build_upsert job_details) tbl) = None) \<and>
   (fetch_104_data net job_url = (lg, Inr job_details) \<and> job_details \<noteq> [] \<and>
    srv (build_upsert job_details) tbl = (Some e, tbl') \<and> database_layer e \<longrightarrow>
      main None net srv tbl =
        ([LogInfo CheckingTable, LogInfo TableReady, LogInfo (Fetching job_url)] @ lg @
         [LogInfo FetchSucceeded, LogError (WriteFailed e)], Inr (), tbl))"
proof -
  have exc: "is_Exception e" if "database_layer e"
    using that by (cases e) simp_all
  have fail: "persist srv job_details tbl = ([LogError (WriteFailed e)], Inr (), tbl)"
    if "srv (build_upsert job_details) tbl = (Some e, tbl')" and "database_layer e"
    using that exc by (simp add: persist_def engine_begin_def handle_write_def)
  have ok: "persist srv job_details tbl = ([LogInfo (Upserted v)], Inr (), tbl')"
    if "srv (build_upsert job_details) tbl = (None, tbl')" and "map_of job_details ''job_id'' = Some v"
    using that by (simp add: persist_def engine_begin_def subscript_def)
  have changed: "fst (srv (build_upsert job_details) tbl) = None"
    if "snd (snd (persist srv job_details tbl)) \<noteq> tbl"
    using that
    by (cases "srv (build_upsert job_details) tbl")
       (auto simp: persist_def engine_begin_def handle_write_def
          split: option.splits sum.splits if_splits)
  have whole: "main None net srv tbl =
        ([LogInfo CheckingTable, LogInfo TableReady, LogInfo (Fetching job_url)] @ lg @
         [LogInfo FetchSucceeded, LogError (WriteFailed e)], Inr (), tbl)"
    if "fetch_104_data net job_url = (lg, Inr job_details)" and "job_details \<noteq> []"
      and "srv (build_upsert job_details) tbl = (Some e, tbl')" and "database_layer e"
    using that fail [OF that(3,4)] by (simp add: main_def)
  show ?thesis
    using fail ok changed whole by blast
qed

theorem database_error_rolled_back_witness:
  "persist (\<lambda>s t. (Some IntegrityError, [])) [(''job_id'', JStr ''8863t'')] [[(''job_id'', JStr ''7'')]] =
     ([LogError (WriteFailed IntegrityError)], Inr (), [[(''job_id'', JStr ''7'')]])"
proof -
  have "database_layer IntegrityError"
    by simp
  then show ?thesis
    using database_error_rolled_back
      [of "\<lambda>s t. (Some IntegrityError, [])" "[(''job_id'', JStr ''8863t'')]"
          "[[(''job_id'', JStr ''7'')]]" IntegrityError "[]"]
    by blast
qed

end
